theory Spec2Isabelle
  imports Complex_Main "HOL-Library.Word"
begin

unbundle bit_operations_syntax

section \<open>Data model\<close>

text \<open>
  The library is templated over the hash width \<open>N\<close> (bytes). A \<open>hash_value<N>\<close> wraps a
  \<open>std::array<std::uint8_t, N>\<close>; it is modelled as a list of bytes, and \<open>N\<close> is an
  explicit parameter wherever the source uses the template argument. A hash word of the
  template instance \<open>N\<close> is a list of length \<open>N\<close>. \<open>std::size_t\<close> is the 64-bit unsigned
  integer of the LP64 platforms the library targets.
\<close>

type_synonym byte = "8 word"
type_synonym size_t = "64 word"
type_synonym hash_value = "byte list"

text \<open>
  Every exception of the source is a \<open>std::invalid_argument\<close> or a \<open>std::runtime_error\<close>
  told apart by its message; the constructors below carry the names the specification
  gives to those failures. \<open>OutOfRange\<close> stands for an index past the end of a
  \<open>std::vector\<close> (undefined behaviour in C++). \<open>FloatingPointDomain\<close> marks an evaluation
  whose \<open>double\<close> arithmetic divides by zero or raises a negative base to a power: IEEE
  arithmetic goes on with an infinity or NaN there and throws nothing, and the model,
  whose rates are real numbers, does not follow it.
\<close>

datatype error =
    IncompatibleKey
  | SizeMismatch
  | InvalidThreshold
  | InsufficientShares
  | EmptyCompound
  | TruncatedInput
  | OutOfRange
  | FloatingPointDomain

subsection \<open>core/hash_types.hpp: hash_value\<close>

definition hv_zero :: "nat \<Rightarrow> hash_value" where
  \<comment> \<open>the value-initialised \<open>storage_type data{}\<close>\<close>
  "hv_zero N = replicate N 0"

definition hv_xor :: "hash_value \<Rightarrow> hash_value \<Rightarrow> hash_value" where
  \<comment> \<open>\<open>operator^\<close>: \<open>result.data[i] = data[i] ^ other.data[i]\<close> for every index\<close>
  "hv_xor a b = map2 (XOR) a b"

definition hv_and :: "hash_value \<Rightarrow> hash_value \<Rightarrow> hash_value" where
  \<comment> \<open>\<open>operator&\<close>\<close>
  "hv_and a b = map2 (AND) a b"

definition hv_or :: "hash_value \<Rightarrow> hash_value \<Rightarrow> hash_value" where
  \<comment> \<open>\<open>operator|\<close>\<close>
  "hv_or a b = map2 (OR) a b"

definition hv_not :: "hash_value \<Rightarrow> hash_value" where
  \<comment> \<open>\<open>operator~\<close>\<close>
  "hv_not a = map NOT a"

definition is_zero :: "hash_value \<Rightarrow> bool" where
  "is_zero a = list_all (\<lambda>b. b = 0) a"

definition is_ones :: "hash_value \<Rightarrow> bool" where
  "is_ones a = list_all (\<lambda>b. b = 0xFF) a"

subsection \<open>core/approximate_value.hpp\<close>

text \<open>
  The rates are C++ \<open>double\<close>s; they are modelled as real numbers, so the arithmetic on
  them is exact.
\<close>

record 'a approximate_value =
  av_value :: 'a
  false_positive_rate :: real
  false_negative_rate :: real

type_synonym approximate_bool = "bool approximate_value"

definition approximate :: "'a \<Rightarrow> real \<Rightarrow> real \<Rightarrow> 'a approximate_value" where
  \<comment> \<open>the constructor \<open>approximate_value(value, fpr, fnr)\<close>\<close>
  "approximate v fpr fnr =
     \<lparr>av_value = v, false_positive_rate = fpr, false_negative_rate = fnr\<rparr>"

definition error_rate :: "'a approximate_value \<Rightarrow> real" where
  "error_rate a = max (false_positive_rate a) (false_negative_rate a)"

definition is_exact :: "'a approximate_value \<Rightarrow> bool" where
  "is_exact a \<longleftrightarrow> false_positive_rate a = 0 \<and> false_negative_rate a = 0"

definition compose_error_rates :: "real \<Rightarrow> real \<Rightarrow> real" where
  "compose_error_rates e1 e2 = e1 + e2 - e1 * e2"

definition ab_and :: "approximate_bool \<Rightarrow> approximate_bool \<Rightarrow> approximate_bool" where
  \<comment> \<open>\<open>approximate_bool::operator&&\<close>\<close>
  "ab_and a other =
     (let result = (av_value a \<and> av_value other);
          fpr = compose_error_rates (false_positive_rate a) (false_positive_rate other);
          fnr = compose_error_rates (false_negative_rate a) (false_negative_rate other)
      in approximate result fpr fnr)"

definition ab_or :: "approximate_bool \<Rightarrow> approximate_bool \<Rightarrow> approximate_bool" where
  \<comment> \<open>\<open>approximate_bool::operator||\<close>\<close>
  "ab_or a other =
     (let result = (av_value a \<or> av_value other);
          fpr = compose_error_rates (false_positive_rate a) (false_positive_rate other);
          fnr = compose_error_rates (false_negative_rate a) (false_negative_rate other)
      in approximate result fpr fnr)"

definition ab_not :: "approximate_bool \<Rightarrow> approximate_bool" where
  \<comment> \<open>\<open>approximate_bool::operator!\<close>\<close>
  "ab_not a = approximate (\<not> av_value a) (false_negative_rate a) (false_positive_rate a)"

subsection \<open>core/hash_types.hpp: key_derivation; trapdoor.hpp\<close>

text \<open>
  \<open>key_derivation::derive\<close> is built on \<open>std::hash\<close>, whose values the C++ standard leaves to
  the implementation, and it shifts a 64-bit word by \<open>i * 8\<close> bits for every byte index
  \<open>i < N\<close>, which has no defined result from \<open>i = 8\<close> on. The factory therefore carries the
  derivation as a parameter: \<open>tf_derive\<close> is \<open>key_.derive<N>\<close> at the value type the factory
  is used with, \<open>tf_key_fingerprint\<close> is \<open>key_.key_fingerprint()\<close>.
\<close>

record trapdoor =
  value_hash :: hash_value
  key_fingerprint :: size_t

record 'v trapdoor_factory =
  tf_derive :: "'v \<Rightarrow> hash_value"
  tf_key_fingerprint :: size_t

definition make_td :: "hash_value \<Rightarrow> size_t \<Rightarrow> trapdoor" where
  \<comment> \<open>the constructor \<open>trapdoor(value_hash, key_fingerprint)\<close>\<close>
  "make_td h kf = \<lparr>value_hash = h, key_fingerprint = kf\<rparr>"

definition compatible_with :: "trapdoor \<Rightarrow> trapdoor \<Rightarrow> bool" where
  "compatible_with a other \<longleftrightarrow> key_fingerprint a = key_fingerprint other"

definition collision_rate :: "nat \<Rightarrow> real" where
  \<comment> \<open>\<open>std::pow(2.0, -static_cast<double>(N * 8))\<close>\<close>
  "collision_rate N = 2 powr (- real (N * 8))"

definition equals :: "nat \<Rightarrow> trapdoor \<Rightarrow> trapdoor \<Rightarrow> error + approximate_bool" where
  \<comment> \<open>\<open>trapdoor::equals\<close>\<close>
  "equals N a other =
     (if \<not> compatible_with a other then Inl IncompatibleKey
      else let same = (value_hash a = value_hash other);
               fpr = collision_rate N
           in Inr (approximate same fpr 0))"

definition create :: "'v trapdoor_factory \<Rightarrow> 'v \<Rightarrow> trapdoor" where
  \<comment> \<open>\<open>trapdoor_factory::create\<close>\<close>
  "create f v = (let h = tf_derive f v in make_td h (tf_key_fingerprint f))"

subsection \<open>sets/symmetric_difference_set.hpp\<close>

record symmetric_difference_set =
  sds_hash :: hash_value
  sds_key_fingerprint :: size_t

definition make_sds :: "hash_value \<Rightarrow> size_t \<Rightarrow> symmetric_difference_set" where
  "make_sds h kf = \<lparr>sds_hash = h, sds_key_fingerprint = kf\<rparr>"

definition sds_default :: "nat \<Rightarrow> symmetric_difference_set" where
  \<comment> \<open>the default constructor: \<open>hash_{}\<close>, \<open>key_fingerprint_{0}\<close>\<close>
  "sds_default N = make_sds (hv_zero N) 0"

definition sds_verify_compatible ::
  "symmetric_difference_set \<Rightarrow> symmetric_difference_set \<Rightarrow> error + unit" where
  "sds_verify_compatible a other =
     (if sds_key_fingerprint a \<noteq> 0 \<and> sds_key_fingerprint other \<noteq> 0
         \<and> sds_key_fingerprint a \<noteq> sds_key_fingerprint other
      then Inl IncompatibleKey else Inr ())"

definition sds_xor ::
  "symmetric_difference_set \<Rightarrow> symmetric_difference_set \<Rightarrow> error + symmetric_difference_set" where
  \<comment> \<open>\<open>operator^\<close>\<close>
  "sds_xor a other =
     (case sds_verify_compatible a other of
        Inl e \<Rightarrow> Inl e
      | Inr _ \<Rightarrow> Inr (make_sds (hv_xor (sds_hash a) (sds_hash other)) (sds_key_fingerprint a)))"

definition sds_xor_assign ::
  "symmetric_difference_set \<Rightarrow> trapdoor \<Rightarrow> error + symmetric_difference_set" where
  \<comment> \<open>\<open>operator^=\<close>: the updated set is returned\<close>
  "sds_xor_assign a elem =
     (if key_fingerprint elem \<noteq> sds_key_fingerprint a \<and> sds_key_fingerprint a \<noteq> 0
      then Inl IncompatibleKey
      else let kf = (if sds_key_fingerprint a = 0 then key_fingerprint elem
                     else sds_key_fingerprint a)
           in Inr (make_sds (hv_xor (sds_hash a) (value_hash elem)) kf))"

definition sds_is_empty :: "nat \<Rightarrow> symmetric_difference_set \<Rightarrow> approximate_bool" where
  \<comment> \<open>\<open>symmetric_difference_set::empty\<close>\<close>
  "sds_is_empty N a = approximate (is_zero (sds_hash a)) (collision_rate N) 0"

definition sds_equals ::
  "nat \<Rightarrow> symmetric_difference_set \<Rightarrow> symmetric_difference_set \<Rightarrow> error + approximate_bool" where
  "sds_equals N a other =
     (case sds_verify_compatible a other of
        Inl e \<Rightarrow> Inl e
      | Inr _ \<Rightarrow> Inr (approximate (sds_hash a = sds_hash other) (collision_rate N) 0))"

definition sdsf_empty :: "nat \<Rightarrow> 'v trapdoor_factory \<Rightarrow> symmetric_difference_set" where
  \<comment> \<open>\<open>symmetric_difference_set_factory::empty\<close>\<close>
  "sdsf_empty N f = sds_default N"

definition sdsf_singleton :: "'v trapdoor_factory \<Rightarrow> 'v \<Rightarrow> symmetric_difference_set" where
  "sdsf_singleton f v = (let td = create f v in make_sds (value_hash td) (key_fingerprint td))"

fun from_unique_loop ::
  "'v trapdoor_factory \<Rightarrow> 'v list \<Rightarrow> symmetric_difference_set \<Rightarrow> error + symmetric_difference_set" where
  "from_unique_loop f [] result = Inr result"
| "from_unique_loop f (v # vs) result =
     (case sds_xor_assign result (create f v) of
        Inl e \<Rightarrow> Inl e
      | Inr r \<Rightarrow> from_unique_loop f vs r)"

definition from_unique ::
  "nat \<Rightarrow> 'v trapdoor_factory \<Rightarrow> 'v list \<Rightarrow> error + symmetric_difference_set" where
  "from_unique N f vs = from_unique_loop f vs (sds_default N)"

subsection \<open>sets/boolean_set.hpp\<close>

record boolean_set =
  bs_hash :: hash_value
  bs_key_fingerprint :: size_t

definition make_bs :: "hash_value \<Rightarrow> size_t \<Rightarrow> boolean_set" where
  "make_bs h kf = \<lparr>bs_hash = h, bs_key_fingerprint = kf\<rparr>"

definition bs_verify_compatible :: "boolean_set \<Rightarrow> boolean_set \<Rightarrow> error + unit" where
  "bs_verify_compatible a other =
     (if bs_key_fingerprint a \<noteq> bs_key_fingerprint other then Inl IncompatibleKey else Inr ())"

definition bs_or :: "boolean_set \<Rightarrow> boolean_set \<Rightarrow> error + boolean_set" where
  \<comment> \<open>\<open>operator|\<close>, union\<close>
  "bs_or a other =
     (case bs_verify_compatible a other of
        Inl e \<Rightarrow> Inl e
      | Inr _ \<Rightarrow> Inr (make_bs (hv_or (bs_hash a) (bs_hash other)) (bs_key_fingerprint a)))"

definition bs_and :: "boolean_set \<Rightarrow> boolean_set \<Rightarrow> error + boolean_set" where
  \<comment> \<open>\<open>operator&\<close>, intersection\<close>
  "bs_and a other =
     (case bs_verify_compatible a other of
        Inl e \<Rightarrow> Inl e
      | Inr _ \<Rightarrow> Inr (make_bs (hv_and (bs_hash a) (bs_hash other)) (bs_key_fingerprint a)))"

definition bs_xor :: "boolean_set \<Rightarrow> boolean_set \<Rightarrow> error + boolean_set" where
  \<comment> \<open>\<open>operator^\<close>, symmetric difference\<close>
  "bs_xor a other =
     (case bs_verify_compatible a other of
        Inl e \<Rightarrow> Inl e
      | Inr _ \<Rightarrow> Inr (make_bs (hv_xor (bs_hash a) (bs_hash other)) (bs_key_fingerprint a)))"

definition bs_not :: "boolean_set \<Rightarrow> boolean_set" where
  \<comment> \<open>\<open>operator~\<close>, complement\<close>
  "bs_not a = make_bs (hv_not (bs_hash a)) (bs_key_fingerprint a)"

definition bs_minus :: "boolean_set \<Rightarrow> boolean_set \<Rightarrow> error + boolean_set" where
  \<comment> \<open>\<open>operator-\<close>: \<open>*this & ~other\<close>\<close>
  "bs_minus a other = bs_and a (bs_not other)"

definition contains :: "boolean_set \<Rightarrow> trapdoor \<Rightarrow> error + approximate_bool" where
  "contains a elem =
     (if key_fingerprint elem \<noteq> bs_key_fingerprint a then Inl IncompatibleKey
      else let masked = hv_and (bs_hash a) (value_hash elem);
               all_bits_set = (masked = value_hash elem);
               fpr = 0.5
           in Inr (approximate all_bits_set fpr 0))"

definition subset_of :: "boolean_set \<Rightarrow> boolean_set \<Rightarrow> error + approximate_bool" where
  "subset_of a other =
     (case bs_verify_compatible a other of
        Inl e \<Rightarrow> Inl e
      | Inr _ \<Rightarrow>
          (let is_subset = (hv_and (bs_hash a) (bs_hash other) = bs_hash a);
               fpr = 0.5
           in Inr (approximate is_subset fpr 0)))"

definition bs_is_empty :: "nat \<Rightarrow> boolean_set \<Rightarrow> approximate_bool" where
  \<comment> \<open>\<open>boolean_set::empty\<close>\<close>
  "bs_is_empty N a = approximate (is_zero (bs_hash a)) (collision_rate N) 0"

definition bs_is_universal :: "nat \<Rightarrow> boolean_set \<Rightarrow> approximate_bool" where
  \<comment> \<open>\<open>boolean_set::universal\<close>\<close>
  "bs_is_universal N a = approximate (is_ones (bs_hash a)) (collision_rate N) 0"

definition bs_equals :: "nat \<Rightarrow> boolean_set \<Rightarrow> boolean_set \<Rightarrow> error + approximate_bool" where
  "bs_equals N a other =
     (case bs_verify_compatible a other of
        Inl e \<Rightarrow> Inl e
      | Inr _ \<Rightarrow> Inr (approximate (bs_hash a = bs_hash other) (collision_rate N) 0))"

text \<open>
  \<open>std::to_string\<close> on an unsigned integer: its decimal digits.
\<close>

function to_string :: "nat \<Rightarrow> string" where
  "to_string n =
     (if n < 10 then [char_of (48 + n)]
      else to_string (n div 10) @ [char_of (48 + n mod 10)])"
  by pat_completeness auto
termination
  by (relation "measure id") auto

declare to_string.simps [simp del]

text \<open>
  \<open>boolean_set_factory<T, N>\<close> calls its trapdoor factory on salted strings only, so the
  factory it holds is one over strings; \<open>bsf_std_hash\<close> is \<open>std::hash<T>\<close>.
\<close>

record 'v boolean_set_factory =
  bsf_trapdoor_factory :: "string trapdoor_factory"
  bsf_num_hashes :: nat
  bsf_std_hash :: "'v \<Rightarrow> size_t"

definition bsf_empty :: "nat \<Rightarrow> 'v boolean_set_factory \<Rightarrow> boolean_set" where
  \<comment> \<open>\<open>boolean_set_factory::empty\<close>\<close>
  "bsf_empty N f = make_bs (hv_zero N) (tf_key_fingerprint (bsf_trapdoor_factory f))"

definition bsf_universal :: "nat \<Rightarrow> 'v boolean_set_factory \<Rightarrow> boolean_set" where
  \<comment> \<open>\<open>boolean_set_factory::universal\<close>\<close>
  "bsf_universal N f = make_bs (replicate N 0xFF) (tf_key_fingerprint (bsf_trapdoor_factory f))"

definition set_bits :: "nat \<Rightarrow> nat \<Rightarrow> hash_value \<Rightarrow> hash_value \<Rightarrow> hash_value" where
  \<comment> \<open>the inner loop of \<open>singleton\<close>:
      \<open>if (td.hash().data[j] & 0x01) result.data[j] |= (1 << (i % 8))\<close> for \<open>j < N\<close>\<close>
  "set_bits N i tdh result =
     map (\<lambda>j. if (tdh ! j) AND 1 \<noteq> 0 then (result ! j) OR push_bit (i mod 8) 1
               else result ! j) [0..<N]"

definition singleton_hash :: "nat \<Rightarrow> 'v boolean_set_factory \<Rightarrow> 'v \<Rightarrow> hash_value" where
  \<comment> \<open>the outer loop of \<open>singleton\<close>, over \<open>i < num_hashes_\<close>\<close>
  "singleton_hash N f v =
     fold (\<lambda>i result.
             let modified_value = to_string i @ to_string (unat (bsf_std_hash f v));
                 td = create (bsf_trapdoor_factory f) modified_value
             in set_bits N i (value_hash td) result)
          [0..<bsf_num_hashes f] (hv_zero N)"

definition singleton :: "nat \<Rightarrow> 'v boolean_set_factory \<Rightarrow> 'v \<Rightarrow> boolean_set" where
  "singleton N f v =
     make_bs (singleton_hash N f v) (tf_key_fingerprint (bsf_trapdoor_factory f))"

fun from_collection_loop ::
  "nat \<Rightarrow> 'v boolean_set_factory \<Rightarrow> 'v list \<Rightarrow> boolean_set \<Rightarrow> error + boolean_set" where
  "from_collection_loop N f [] result = Inr result"
| "from_collection_loop N f (v # vs) result =
     (case bs_or result (singleton N f v) of
        Inl e \<Rightarrow> Inl e
      | Inr r \<Rightarrow> from_collection_loop N f vs r)"

definition from_collection ::
  "nat \<Rightarrow> 'v boolean_set_factory \<Rightarrow> 'v list \<Rightarrow> error + boolean_set" where
  "from_collection N f vs = from_collection_loop N f vs (bsf_empty N f)"

text \<open>
  The membership test as the specification words it: the mask that the trapdoor would
  have set is computed from the trapdoor's own hash by the per-byte rule of the
  singleton construction (for each \<open>i < m\<close> and each byte \<open>j\<close>, a set low bit of byte \<open>j\<close>
  sets bit \<open>i mod 8\<close> of the mask's byte \<open>j\<close>), and the answer is
  \<open>(mask & a.h) == mask\<close>.
\<close>

definition spec_singleton_mask :: "nat \<Rightarrow> nat \<Rightarrow> hash_value \<Rightarrow> hash_value" where
  "spec_singleton_mask N m h = fold (\<lambda>i result. set_bits N i h result) [0..<m] (hv_zero N)"

definition spec_contains_value :: "nat \<Rightarrow> nat \<Rightarrow> boolean_set \<Rightarrow> trapdoor \<Rightarrow> bool" where
  "spec_contains_value N m a t =
     (let mask = spec_singleton_mask N m (value_hash t)
      in hv_and mask (bs_hash a) = mask)"

subsection \<open>operations/homomorphic.hpp\<close>

text \<open>
  The payload type \<open>T\<close> of an additive trapdoor is any numeric type; it is modelled as a
  ring, and the \<open>int\<close> scalar is converted to it as C++ converts it before multiplying.
\<close>

record 'a additive_trapdoor =
  at_hash :: hash_value
  at_key_fingerprint :: size_t
  encrypted_value :: 'a

definition make_at :: "trapdoor \<Rightarrow> 'a \<Rightarrow> 'a additive_trapdoor" where
  \<comment> \<open>the constructor \<open>additive_trapdoor(td, value)\<close>\<close>
  "make_at td v =
     \<lparr>at_hash = value_hash td, at_key_fingerprint = key_fingerprint td, encrypted_value = v\<rparr>"

definition at_plus ::
  "('a::ring_1) additive_trapdoor \<Rightarrow> 'a additive_trapdoor \<Rightarrow> error + 'a additive_trapdoor" where
  \<comment> \<open>\<open>additive_trapdoor::operator+\<close>\<close>
  "at_plus a other =
     (if at_key_fingerprint a \<noteq> at_key_fingerprint other then Inl IncompatibleKey
      else let combined_hash = hv_xor (at_hash a) (at_hash other);
               sum = encrypted_value a + encrypted_value other
           in Inr (make_at (make_td combined_hash (at_key_fingerprint a)) sum))"

fun xor_repeat :: "hash_value \<Rightarrow> nat \<Rightarrow> hash_value \<Rightarrow> hash_value" where
  \<comment> \<open>\<open>scaled_hash = scaled_hash ^ hash_\<close>, the given number of times\<close>
  "xor_repeat h 0 scaled_hash = scaled_hash"
| "xor_repeat h (Suc n) scaled_hash = xor_repeat h n (hv_xor scaled_hash h)"

definition at_times :: "('a::ring_1) additive_trapdoor \<Rightarrow> int \<Rightarrow> 'a additive_trapdoor" where
  \<comment> \<open>\<open>additive_trapdoor::operator*\<close>: the loop \<open>for (int i = 1; i < std::abs(scalar); ++i)\<close>
      runs \<open>|scalar| - 1\<close> times, and not at all for \<open>scalar = 0\<close>. The scalar is a C++
      \<open>int\<close>; \<open>std::abs\<close> is defined on all of them but \<open>INT_MIN = - 2\<^sup>3\<^sup>1\<close>\<close>
  "at_times a scalar =
     (let scaled_hash = xor_repeat (at_hash a) (nat \<bar>scalar\<bar> - 1) (at_hash a);
          scaled_value = encrypted_value a * of_int scalar
      in make_at (make_td scaled_hash (at_key_fingerprint a)) scaled_value)"

record threshold_scheme =
  threshold :: size_t
  total :: size_t

definition new_threshold_scheme :: "size_t \<Rightarrow> size_t \<Rightarrow> error + threshold_scheme" where
  \<comment> \<open>the constructor \<open>threshold_scheme(k, n)\<close>\<close>
  "new_threshold_scheme k n =
     (if k > n then Inl InvalidThreshold else Inr \<lparr>threshold = k, total = n\<rparr>)"

text \<open>
  \<open>std::rand\<close> is modelled by the sequence of the numbers it returns from the moment of
  the call on: \<open>rand i\<close> is the result of the \<open>i\<close>-th call.
\<close>

definition random_share :: "nat \<Rightarrow> (nat \<Rightarrow> int) \<Rightarrow> nat \<Rightarrow> hash_value" where
  \<comment> \<open>the \<open>i\<close>-th random share: \<open>share.data[j] = std::rand() & 0xFF\<close> for \<open>j < N\<close>\<close>
  "random_share N rand i = map (\<lambda>j. word_of_int (rand (i * N + j) AND 0xFF)) [0..<N]"

definition create_shares ::
  "nat \<Rightarrow> threshold_scheme \<Rightarrow> (nat \<Rightarrow> int) \<Rightarrow> trapdoor \<Rightarrow> hash_value list" where
  \<comment> \<open>\<open>total_ - 1\<close> and \<open>threshold_ - 1\<close> are \<open>size_t\<close> subtractions and wrap at zero;
      the second loop stops at \<open>i < shares.size()\<close> as well\<close>
  "create_shares N s rand td =
     (let original_hash = value_hash td;
          shares = map (random_share N rand) [0..<unat (total s - 1)];
          last_share = fold (\<lambda>share last. hv_xor last share)
                            (take (unat (threshold s - 1)) shares) original_hash
      in shares @ [last_share])"

definition reconstruct ::
  "threshold_scheme \<Rightarrow> hash_value list \<Rightarrow> size_t \<Rightarrow> error + trapdoor" where
  \<comment> \<open>\<open>result = shares[0]\<close>, then \<open>result = result ^ shares[i]\<close> for \<open>1 \<le> i < threshold_\<close>\<close>
  "reconstruct s shares kf =
     (if length shares < unat (threshold s) then Inl InsufficientShares
      else case shares of
             [] \<Rightarrow> Inl OutOfRange
           | first # rest \<Rightarrow>
               Inr (make_td (fold (\<lambda>share result. hv_xor result share)
                                  (take (unat (threshold s) - 1) rest) first) kf))"

text \<open>
  The XOR of a list of shares of width \<open>N\<close>, as the specification uses it to describe the
  last share.
\<close>

definition xor_all :: "nat \<Rightarrow> hash_value list \<Rightarrow> hash_value" where
  "xor_all N shares = fold (\<lambda>share acc. hv_xor acc share) shares (hv_zero N)"

subsection \<open>serialization/binary_format.hpp\<close>

text \<open>
  The key fingerprint is written and read back as the eight bytes of its object
  representation (\<open>reinterpret_cast\<close> and \<open>std::memcpy\<close>), in the byte order of the host,
  which is a parameter of the model.
\<close>

datatype byte_order = LittleEndian | BigEndian

definition le_bytes :: "size_t \<Rightarrow> byte list" where
  "le_bytes w = map (\<lambda>i. ucast (drop_bit (8 * i) w)) [0..<8]"

definition le_word :: "byte list \<Rightarrow> size_t" where
  "le_word bs = foldr (\<lambda>b w. ucast b OR push_bit 8 w) bs 0"

definition size_t_bytes :: "byte_order \<Rightarrow> size_t \<Rightarrow> byte list" where
  "size_t_bytes bo w = (case bo of LittleEndian \<Rightarrow> le_bytes w | BigEndian \<Rightarrow> rev (le_bytes w))"

definition size_t_of_bytes :: "byte_order \<Rightarrow> byte list \<Rightarrow> size_t" where
  "size_t_of_bytes bo bs = (case bo of LittleEndian \<Rightarrow> le_word bs | BigEndian \<Rightarrow> le_word (rev bs))"

definition serialize_hash :: "hash_value \<Rightarrow> byte list" where
  \<comment> \<open>\<open>serialize(hash_value<N>)\<close>: the \<open>N\<close> bytes of the array\<close>
  "serialize_hash h = h"

definition serialize_trapdoor :: "byte_order \<Rightarrow> trapdoor \<Rightarrow> byte list" where
  "serialize_trapdoor bo td =
     (let hash_bytes = serialize_hash (value_hash td);
          kf_bytes = size_t_bytes bo (key_fingerprint td)
      in hash_bytes @ kf_bytes)"

definition serialize_sym_diff_set :: "byte_order \<Rightarrow> symmetric_difference_set \<Rightarrow> byte list" where
  "serialize_sym_diff_set bo s =
     (let hash_bytes = serialize_hash (sds_hash s);
          kf_bytes = size_t_bytes bo (sds_key_fingerprint s)
      in hash_bytes @ kf_bytes)"

definition serialize_boolean_set :: "byte_order \<Rightarrow> boolean_set \<Rightarrow> byte list" where
  "serialize_boolean_set bo s =
     (let hash_bytes = serialize_hash (bs_hash s);
          kf_bytes = size_t_bytes bo (bs_key_fingerprint s)
      in hash_bytes @ kf_bytes)"

definition deserialize_hash :: "nat \<Rightarrow> byte list \<Rightarrow> error + hash_value" where
  "deserialize_hash N bytes =
     (if length bytes < N then Inl TruncatedInput else Inr (take N bytes))"

definition deserialize_trapdoor :: "byte_order \<Rightarrow> nat \<Rightarrow> byte list \<Rightarrow> error + trapdoor" where
  "deserialize_trapdoor bo N bytes =
     (if length bytes < N + 8 then Inl TruncatedInput
      else case deserialize_hash N (take N bytes) of
             Inl e \<Rightarrow> Inl e
           | Inr hash \<Rightarrow> Inr (make_td hash (size_t_of_bytes bo (take 8 (drop N bytes)))))"

definition deserialize_sym_diff_set ::
  "byte_order \<Rightarrow> nat \<Rightarrow> byte list \<Rightarrow> error + symmetric_difference_set" where
  "deserialize_sym_diff_set bo N bytes =
     (if length bytes < N + 8 then Inl TruncatedInput
      else case deserialize_hash N (take N bytes) of
             Inl e \<Rightarrow> Inl e
           | Inr hash \<Rightarrow> Inr (make_sds hash (size_t_of_bytes bo (take 8 (drop N bytes)))))"

definition deserialize_boolean_set ::
  "byte_order \<Rightarrow> nat \<Rightarrow> byte list \<Rightarrow> error + boolean_set" where
  "deserialize_boolean_set bo N bytes =
     (if length bytes < N + 8 then Inl TruncatedInput
      else case deserialize_hash N (take N bytes) of
             Inl e \<Rightarrow> Inl e
           | Inr hash \<Rightarrow> Inr (make_bs hash (size_t_of_bytes bo (take 8 (drop N bytes)))))"

subsection \<open>operations/similarity.hpp: minhash\<close>

record signature =
  sig_values :: "32 word list"
  sig_key_fingerprint :: size_t

record 'v minhash =
  mh_factory :: "string trapdoor_factory"
  mh_num_hashes :: nat
  mh_std_hash :: "'v \<Rightarrow> size_t"

definition new_signature :: "nat \<Rightarrow> size_t \<Rightarrow> signature" where
  \<comment> \<open>\<open>signature(k, kf)\<close>: \<open>k\<close> copies of \<open>std::numeric_limits<std::uint32_t>::max()\<close>\<close>
  "new_signature k kf = \<lparr>sig_values = replicate k (- 1), sig_key_fingerprint = kf\<rparr>"

definition extract_32 :: "nat \<Rightarrow> hash_value \<Rightarrow> 32 word" where
  \<comment> \<open>\<open>hash_val = (hash_val << 8) | td.hash().data[j]\<close> for \<open>j < 4 && j < N\<close>\<close>
  "extract_32 N h = fold (\<lambda>j hash_val. push_bit 8 hash_val OR ucast (h ! j)) [0..<min 4 N] 0"

definition signature_step :: "nat \<Rightarrow> 'v minhash \<Rightarrow> 'v \<Rightarrow> signature \<Rightarrow> signature" where
  \<comment> \<open>the inner loop of \<open>generate_signature\<close>, over \<open>i < num_hashes_\<close>, for one value\<close>
  "signature_step N mh val sig =
     fold (\<lambda>i sig.
             let salted_val = to_string i @ to_string (unat (mh_std_hash mh val));
                 td = create (mh_factory mh) salted_val;
                 hash_val = extract_32 N (value_hash td)
             in sig\<lparr>sig_values := (sig_values sig)[i := min (sig_values sig ! i) hash_val]\<rparr>)
          [0..<mh_num_hashes mh] sig"

definition generate_signature :: "nat \<Rightarrow> 'v minhash \<Rightarrow> 'v list \<Rightarrow> signature" where
  "generate_signature N mh vals =
     fold (signature_step N mh) vals
          (new_signature (mh_num_hashes mh) (tf_key_fingerprint (mh_factory mh)))"

definition count_matches :: "'a list \<Rightarrow> 'a list \<Rightarrow> nat" where
  \<comment> \<open>the number of indices at which two vectors of one length agree\<close>
  "count_matches xs ys = length (filter (\<lambda>(x, y). x = y) (zip xs ys))"

definition estimate_similarity ::
  "'v minhash \<Rightarrow> signature \<Rightarrow> signature \<Rightarrow> error + real approximate_value" where
  \<comment> \<open>the two divisions are \<open>double\<close> divisions, by \<open>sig_a.values.size()\<close> and by
      \<open>num_hashes_\<close>; \<open>approximate_value<double>(similarity, error)\<close> leaves the third
      argument at its default 0\<close>
  "estimate_similarity mh sig_a sig_b =
     (if sig_key_fingerprint sig_a \<noteq> sig_key_fingerprint sig_b then Inl IncompatibleKey
      else if length (sig_values sig_a) \<noteq> length (sig_values sig_b) then Inl SizeMismatch
      else if length (sig_values sig_a) = 0 \<or> mh_num_hashes mh = 0 then Inl FloatingPointDomain
      else let matches = count_matches (sig_values sig_a) (sig_values sig_b);
               similarity = real matches / real (length (sig_values sig_a));
               err = sqrt (similarity * (1 - similarity) / real (mh_num_hashes mh))
           in Inr (approximate similarity err 0))"

subsection \<open>operations/similarity.hpp: lsh_index\<close>

record lsh_signature =
  bands :: "64 word list"
  lsh_key_fingerprint :: size_t

record lsh_index =
  num_bands :: nat
  band_size :: nat

definition are_similar ::
  "lsh_index \<Rightarrow> lsh_signature \<Rightarrow> lsh_signature \<Rightarrow> real \<Rightarrow> error + approximate_bool" where
  \<comment> \<open>the loop reads \<open>sig_b.bands[i]\<close> for every \<open>i < sig_a.bands.size()\<close>; the divisions by
      \<open>num_bands_\<close> and \<open>band_size_\<close> and the two \<open>std::pow\<close> are over \<open>double\<close>, and the
      base \<open>1 - match_ratio\<close> is negative when more bands match than \<open>num_bands_\<close>\<close>
  "are_similar idx sig_a sig_b thr =
     (if lsh_key_fingerprint sig_a \<noteq> lsh_key_fingerprint sig_b
      then Inr (approximate False 0 1)
      else if length (bands sig_b) < length (bands sig_a) then Inl OutOfRange
      else if num_bands idx = 0 \<or> band_size idx = 0
              \<or> num_bands idx < count_matches (bands sig_a) (bands sig_b)
      then Inl FloatingPointDomain
      else let matches = count_matches (bands sig_a) (bands sig_b);
               match_ratio = real matches / real (num_bands idx);
               estimated_similarity =
                 (1 - (1 - match_ratio) powr (1 / real (num_bands idx)))
                   powr (1 / real (band_size idx));
               is_similar = (estimated_similarity \<ge> thr);
               err = 1 / sqrt (real (num_bands idx))
           in Inr (approximate is_similar err 0))"

section \<open>Theorems\<close>

subsection \<open>Helper facts on hash words\<close>

lemma length_hv_xor [simp]: "length (hv_xor a b) = min (length a) (length b)"
  by (simp add: hv_xor_def)

lemma length_hv_and [simp]: "length (hv_and a b) = min (length a) (length b)"
  by (simp add: hv_and_def)

lemma length_hv_or [simp]: "length (hv_or a b) = min (length a) (length b)"
  by (simp add: hv_or_def)

lemma length_hv_zero [simp]: "length (hv_zero N) = N"
  by (simp add: hv_zero_def)

subsection \<open>Approximate values\<close>

lemma compose_error_rates_alt: "compose_error_rates e1 e2 = 1 - (1 - e1) * (1 - e2)"
  by (simp add: compose_error_rates_def algebra_simps)

lemma compose_error_rates_unit:
  assumes "0 \<le> e1" "e1 \<le> 1" "0 \<le> e2" "e2 \<le> 1"
  shows "0 \<le> compose_error_rates e1 e2" and "compose_error_rates e1 e2 \<le> 1"
proof -
  have nonneg: "0 \<le> (1 - e1) * (1 - e2)"
    using assms by (intro mult_nonneg_nonneg) simp_all
  have le1: "(1 - e1) * (1 - e2) \<le> 1"
    using assms by (intro mult_le_one) simp_all
  show "0 \<le> compose_error_rates e1 e2"
    using le1 by (simp add: compose_error_rates_alt)
  show "compose_error_rates e1 e2 \<le> 1"
    using nonneg by (simp add: compose_error_rates_alt)
qed

text \<open>
  C8. For all approximate booleans \<open>a\<close> and \<open>b\<close>, the conjunction \<open>a && b\<close> has the value
  \<open>a.value \<and> b.value\<close>, the false-positive rate \<open>compose(a.fpr, b.fpr)\<close> and the
  false-negative rate \<open>compose(a.fnr, b.fnr)\<close>, where \<open>compose(e1, e2) = e1 + e2 - e1 * e2\<close>
  with no clamp; and \<open>compose\<close> maps the unit square into the unit interval.
\<close>

theorem ab_and_compose:
  "av_value (ab_and a b) = (av_value a \<and> av_value b)
   \<and> false_positive_rate (ab_and a b)
       = false_positive_rate a + false_positive_rate b
         - false_positive_rate a * false_positive_rate b
   \<and> false_negative_rate (ab_and a b)
       = false_negative_rate a + false_negative_rate b
         - false_negative_rate a * false_negative_rate b
   \<and> (\<forall>e1 e2. 0 \<le> e1 \<and> e1 \<le> 1 \<and> 0 \<le> e2 \<and> e2 \<le> 1
        \<longrightarrow> compose_error_rates e1 e2 = e1 + e2 - e1 * e2
            \<and> 0 \<le> compose_error_rates e1 e2 \<and> compose_error_rates e1 e2 \<le> 1)"
proof -
  have rates: "\<forall>e1 e2. 0 \<le> e1 \<and> e1 \<le> 1 \<and> 0 \<le> e2 \<and> e2 \<le> 1
        \<longrightarrow> compose_error_rates e1 e2 = e1 + e2 - e1 * e2
            \<and> 0 \<le> compose_error_rates e1 e2 \<and> compose_error_rates e1 e2 \<le> 1"
    using compose_error_rates_unit by (simp add: compose_error_rates_def)
  show ?thesis
    using rates by (simp add: ab_and_def approximate_def compose_error_rates_def Let_def)
qed

theorem ab_and_compose_witness:
  "av_value (ab_and (approximate True (1/2) 0) (approximate True (1/2) (1/4)))
   \<and> false_positive_rate (ab_and (approximate True (1/2) 0) (approximate True (1/2) (1/4))) = 3/4
   \<and> false_negative_rate (ab_and (approximate True (1/2) 0) (approximate True (1/2) (1/4))) = 1/4
   \<and> (0::real) \<le> 1/2 \<and> (1/2::real) \<le> 1
   \<and> compose_error_rates (1/2) (1/2) = 3/4
   \<and> 0 \<le> compose_error_rates (1/2) (1/2) \<and> compose_error_rates (1/2) (1/2) \<le> 1"
proof -
  note inst = ab_and_compose [of "approximate True (1/2) 0" "approximate True (1/2) (1/4)"]
  from inst have "(0::real) \<le> 1/2 \<and> (1/2::real) \<le> 1 \<and> (0::real) \<le> 1/2 \<and> (1/2::real) \<le> 1
      \<longrightarrow> compose_error_rates (1/2) (1/2) = 1/2 + 1/2 - 1/2 * (1/2)
          \<and> 0 \<le> compose_error_rates (1/2) (1/2) \<and> compose_error_rates (1/2) (1/2) \<le> 1"
    by blast
  then have rates: "compose_error_rates (1/2) (1/2) = 3/4
      \<and> 0 \<le> compose_error_rates (1/2) (1/2) \<and> compose_error_rates (1/2) (1/2) \<le> 1"
    by simp
  from inst have "av_value (ab_and (approximate True (1/2) 0) (approximate True (1/2) (1/4)))
   \<and> false_positive_rate (ab_and (approximate True (1/2) 0) (approximate True (1/2) (1/4))) = 3/4
   \<and> false_negative_rate (ab_and (approximate True (1/2) 0) (approximate True (1/2) (1/4))) = 1/4"
    by (simp add: approximate_def)
  with rates show ?thesis by simp
qed

subsection \<open>Binary format\<close>

lemma split_low_byte: "ucast (ucast (x :: size_t) :: byte) OR push_bit 8 (drop_bit 8 x) = x"
proof (rule bit_word_eqI)
  fix n assume "n < LENGTH(64)"
  show "bit (ucast (ucast x :: byte) OR push_bit 8 (drop_bit 8 x)) n = bit x n"
  proof (cases "n < 8")
    case True
    then show ?thesis by (auto simp add: bit_simps)
  next
    case False
    then have "8 + (n - 8) = n" by simp
    with False show ?thesis by (auto simp add: bit_simps dest: bit_imp_le_length)
  qed
qed

lemma le_word_Cons: "le_word (b # bs) = ucast b OR push_bit 8 (le_word bs)"
  by (simp add: le_word_def)

lemma le_word_upt:
  assumes "k \<le> 8"
  shows "le_word (map (\<lambda>i. ucast (drop_bit (8 * i) w)) [k..<8]) = drop_bit (8 * k) w"
  using assms
proof (induction k rule: inc_induct)
  case base
  show ?case by (simp add: le_word_def drop_bit_eq_zero_iff_not_bit_last)
next
  case (step n)
  have "drop_bit 8 (drop_bit (8 * n) w) = drop_bit (8 * Suc n) w"
    by (simp add: drop_bit_drop_bit add.commute)
  with step show ?case
    using split_low_byte [of "drop_bit (8 * n) w"]
    by (simp add: upt_conv_Cons le_word_Cons)
qed

lemma le_word_le_bytes: "le_word (le_bytes w) = w"
  using le_word_upt [of 0 w] by (simp add: le_bytes_def)

lemma size_t_roundtrip: "size_t_of_bytes bo (size_t_bytes bo w) = w"
  by (cases bo) (simp_all add: size_t_of_bytes_def size_t_bytes_def le_word_le_bytes)

lemma length_size_t_bytes: "length (size_t_bytes bo w) = 8"
  by (cases bo) (simp_all add: size_t_bytes_def le_bytes_def)

lemma deserialize_layout:
  assumes "length h = N"
  shows "length (h @ size_t_bytes bo kf) = N + 8"
    and "deserialize_hash N (take N (h @ size_t_bytes bo kf)) = Inr h"
    and "size_t_of_bytes bo (take 8 (drop N (h @ size_t_bytes bo kf))) = kf"
  using assms
  by (simp_all add: deserialize_hash_def length_size_t_bytes size_t_roundtrip)

text \<open>
  C4. For every trapdoor, symmetric-difference set and boolean set \<open>x\<close> of hash width \<open>N\<close>,
  deserializing the serialization of \<open>x\<close> gives back \<open>x\<close>: the same \<open>N\<close> hash bytes and the
  same key fingerprint.
\<close>

theorem serialization_roundtrip:
  "(length (value_hash td) = N
      \<longrightarrow> deserialize_trapdoor bo N (serialize_trapdoor bo td) = Inr td)
   \<and> (length (sds_hash s) = N
      \<longrightarrow> deserialize_sym_diff_set bo N (serialize_sym_diff_set bo s) = Inr s)
   \<and> (length (bs_hash b) = N
      \<longrightarrow> deserialize_boolean_set bo N (serialize_boolean_set bo b) = Inr b)"
proof (intro conjI impI)
  assume "length (value_hash td) = N"
  from deserialize_layout [OF this, of bo "key_fingerprint td"]
  show "deserialize_trapdoor bo N (serialize_trapdoor bo td) = Inr td"
    by (simp add: deserialize_trapdoor_def serialize_trapdoor_def serialize_hash_def make_td_def)
next
  assume "length (sds_hash s) = N"
  from deserialize_layout [OF this, of bo "sds_key_fingerprint s"]
  show "deserialize_sym_diff_set bo N (serialize_sym_diff_set bo s) = Inr s"
    by (simp add: deserialize_sym_diff_set_def serialize_sym_diff_set_def serialize_hash_def
        make_sds_def)
next
  assume "length (bs_hash b) = N"
  from deserialize_layout [OF this, of bo "bs_key_fingerprint b"]
  show "deserialize_boolean_set bo N (serialize_boolean_set bo b) = Inr b"
    by (simp add: deserialize_boolean_set_def serialize_boolean_set_def serialize_hash_def
        make_bs_def)
qed

theorem serialization_roundtrip_witness:
  "length (value_hash (make_td [0x12, 0xEF] 0x0102030405060708)) = 2
   \<and> deserialize_trapdoor LittleEndian 2
        (serialize_trapdoor LittleEndian (make_td [0x12, 0xEF] 0x0102030405060708))
       = Inr (make_td [0x12, 0xEF] 0x0102030405060708)
   \<and> length (sds_hash (make_sds [0x00, 0xFF] 7)) = 2
   \<and> deserialize_sym_diff_set LittleEndian 2
        (serialize_sym_diff_set LittleEndian (make_sds [0x00, 0xFF] 7))
       = Inr (make_sds [0x00, 0xFF] 7)
   \<and> length (bs_hash (make_bs [0x07, 0x01] 9)) = 2
   \<and> deserialize_boolean_set LittleEndian 2
        (serialize_boolean_set LittleEndian (make_bs [0x07, 0x01] 9))
       = Inr (make_bs [0x07, 0x01] 9)"
  using serialization_roundtrip [of "make_td [0x12, 0xEF] 0x0102030405060708" 2 LittleEndian
      "make_sds [0x00, 0xFF] 7" "make_bs [0x07, 0x01] 9"]
  by (simp add: make_td_def make_sds_def make_bs_def)

subsection \<open>Trapdoor equality\<close>

lemma collision_rate_eq: "collision_rate N = 1 / 2 ^ (8 * N)"
proof -
  have "(2::real) powr (- real (N * 8)) = inverse (2 powr real (N * 8))"
    by (rule powr_minus)
  also have "\<dots> = inverse (2 ^ (N * 8))"
    using powr_realpow [of 2 "N * 8"] by simp
  finally show ?thesis
    by (simp add: collision_rate_def inverse_eq_divide mult.commute)
qed

text \<open>
  C5. For all trapdoors \<open>a\<close> and \<open>b\<close>: \<open>equals\<close> fails with \<open>IncompatibleKey\<close> when their key
  fingerprints differ; otherwise it returns the approximate boolean with value
  \<open>a.hash == b.hash\<close>, false-positive rate \<open>2\<^sup>-\<^sup>8\<^sup>N\<close> and false-negative rate 0. So two
  trapdoors created from one value under one key compare true, and trapdoors of two
  values with distinct hashes compare false.
\<close>

theorem trapdoor_equals_contract:
  "(key_fingerprint a \<noteq> key_fingerprint b \<longrightarrow> equals N a b = Inl IncompatibleKey)
   \<and> (key_fingerprint a = key_fingerprint b \<longrightarrow>
        equals N a b = Inr (approximate (value_hash a = value_hash b) (1 / 2 ^ (8 * N)) 0))
   \<and> equals N (create f v) (create f v) = Inr (approximate True (1 / 2 ^ (8 * N)) 0)
   \<and> (tf_derive f v \<noteq> tf_derive f w \<longrightarrow>
        equals N (create f v) (create f w) = Inr (approximate False (1 / 2 ^ (8 * N)) 0))"
  by (simp add: equals_def compatible_with_def create_def make_td_def collision_rate_eq Let_def)

theorem trapdoor_equals_contract_witness:
  "key_fingerprint (make_td [1, 2] 7) \<noteq> key_fingerprint (make_td [1, 2] 8)
   \<and> equals 2 (make_td [1, 2] 7) (make_td [1, 2] 8) = Inl IncompatibleKey
   \<and> key_fingerprint (make_td [1, 2] 7) = key_fingerprint (make_td [1, 3] 7)
   \<and> equals 2 (make_td [1, 2] 7) (make_td [1, 3] 7) = Inr (approximate False (1 / 2 ^ 16) 0)
   \<and> tf_derive \<lparr>tf_derive = (\<lambda>n::nat. [of_nat n, 0]), tf_key_fingerprint = 7\<rparr> 1
       \<noteq> tf_derive \<lparr>tf_derive = (\<lambda>n::nat. [of_nat n, 0]), tf_key_fingerprint = 7\<rparr> 2
   \<and> equals 2 (create \<lparr>tf_derive = (\<lambda>n::nat. [of_nat n, 0]), tf_key_fingerprint = 7\<rparr> 1)
               (create \<lparr>tf_derive = (\<lambda>n::nat. [of_nat n, 0]), tf_key_fingerprint = 7\<rparr> 2)
       = Inr (approximate False (1 / 2 ^ 16) 0)"
  using trapdoor_equals_contract [of "make_td [1, 2] 7" "make_td [1, 2] 8" 2
      "\<lparr>tf_derive = (\<lambda>n::nat. [of_nat n, 0]), tf_key_fingerprint = 7\<rparr>" 1 2]
    trapdoor_equals_contract [of "make_td [1, 2] 7" "make_td [1, 3] 7" 2
      "\<lparr>tf_derive = (\<lambda>n::nat. [of_nat n, 0]), tf_key_fingerprint = 7\<rparr>" 1 2]
  by (simp add: make_td_def)

subsection \<open>Symmetric-difference sets\<close>

lemma hv_xor_zero_left: "length h = N \<Longrightarrow> hv_xor (hv_zero N) h = h"
  by (simp add: hv_xor_def hv_zero_def list_eq_iff_nth_eq)

lemma hv_xor_zero_right: "length h = N \<Longrightarrow> hv_xor h (hv_zero N) = h"
  by (simp add: hv_xor_def hv_zero_def list_eq_iff_nth_eq)

lemma sds_default_key_fingerprint: "sds_key_fingerprint (sds_default N) = 0"
  by (simp add: sds_default_def make_sds_def)

lemma sds_xor_empty_right:
  "length (sds_hash s) = N \<Longrightarrow> sds_xor s (sds_default N) = Inr s"
  by (simp add: sds_xor_def sds_verify_compatible_def sds_default_def make_sds_def
      hv_xor_zero_right)

lemma sds_xor_empty_left:
  "length (sds_hash s) = N \<Longrightarrow> sds_xor (sds_default N) s = Inr (make_sds (sds_hash s) 0)"
  by (simp add: sds_xor_def sds_verify_compatible_def sds_default_def make_sds_def
      hv_xor_zero_left)

lemma sds_xor_assign_empty:
  "length (value_hash t) = N \<Longrightarrow>
   sds_xor_assign (sds_default N) t = Inr (make_sds (value_hash t) (key_fingerprint t))"
  by (simp add: sds_xor_assign_def sds_default_def make_sds_def hv_xor_zero_left)

text \<open>
  C2. The empty symmetric-difference set has key fingerprint 0 and is an identity for
  XOR, and the result of combining it with a set \<open>s\<close> carries the fingerprint of \<open>s\<close>, for
  \<open>operator^\<close> as for \<open>operator^=\<close>. With the empty set as the left operand of \<open>operator^\<close>
  the code keeps the hash of \<open>s\<close> but returns the fingerprint 0 of the empty set, where
  \<open>operator^=\<close> on the same data takes over the fingerprint 5 of its operand.
\<close>

theorem sds_xor_empty_left_keeps_zero_fingerprint:
  "sds_key_fingerprint (sds_default 2) = 0
   \<and> sds_xor (sds_default 2) (make_sds [0x12, 0x34] 5) = Inr (make_sds [0x12, 0x34] 0)
   \<and> sds_xor (make_sds [0x12, 0x34] 5) (sds_default 2) = Inr (make_sds [0x12, 0x34] 5)
   \<and> sds_xor_assign (sds_default 2) (make_td [0x12, 0x34] 5) = Inr (make_sds [0x12, 0x34] 5)"
  by (simp add: sds_xor_def sds_xor_assign_def sds_verify_compatible_def sds_default_def
      make_sds_def make_td_def hv_xor_def hv_zero_def numeral_2_eq_2)

subsection \<open>Threshold scheme: construction\<close>

lemma new_threshold_scheme_fails_iff:
  "new_threshold_scheme k n = Inl InvalidThreshold \<longleftrightarrow> n < k"
  by (simp add: new_threshold_scheme_def)

text \<open>
  C7. Constructing a threshold scheme fails with \<open>InvalidThreshold\<close> whenever \<open>k > n\<close> or
  \<open>k = 0\<close>. The constructor tests \<open>k > n\<close> only: for \<open>k = 0\<close> and \<open>n = 5\<close> it returns a
  scheme, and that scheme's \<open>reconstruct\<close> accepts an empty vector of shares and reads
  its first element.
\<close>

theorem new_threshold_scheme_accepts_zero:
  "new_threshold_scheme 0 5 = Inr \<lparr>threshold = 0, total = 5\<rparr>
   \<and> reconstruct \<lparr>threshold = 0, total = 5\<rparr> [] 7 = Inl OutOfRange"
  by (simp add: new_threshold_scheme_def reconstruct_def)

subsection \<open>Key compatibility\<close>

text \<open>
  C3, as the code has it. On operands whose key fingerprints differ, the boolean-set
  operations union, intersection, symmetric difference, \<open>equals\<close> and \<open>subset_of\<close> and the
  addition of additive trapdoors fail with \<open>IncompatibleKey\<close>; the comparison of LSH
  signatures \<open>are_similar\<close> does not fail: it returns the approximate boolean \<open>false\<close>
  with false-positive rate 0 and false-negative rate 1.
\<close>

theorem incompatible_keys:
  "(bs_key_fingerprint a \<noteq> bs_key_fingerprint b \<longrightarrow>
      bs_or a b = Inl IncompatibleKey \<and> bs_and a b = Inl IncompatibleKey
      \<and> bs_xor a b = Inl IncompatibleKey \<and> bs_equals N a b = Inl IncompatibleKey
      \<and> subset_of a b = Inl IncompatibleKey)
   \<and> (at_key_fingerprint x \<noteq> at_key_fingerprint y \<longrightarrow> at_plus x y = Inl IncompatibleKey)
   \<and> (lsh_key_fingerprint sig_a \<noteq> lsh_key_fingerprint sig_b \<longrightarrow>
      are_similar idx sig_a sig_b thr = Inr (approximate False 0 1))"
  by (simp add: bs_or_def bs_and_def bs_xor_def bs_equals_def subset_of_def
      bs_verify_compatible_def at_plus_def are_similar_def)

theorem incompatible_keys_witness:
  "bs_key_fingerprint (make_bs [0x0F] 1) \<noteq> bs_key_fingerprint (make_bs [0x3C] 2)
   \<and> bs_or (make_bs [0x0F] 1) (make_bs [0x3C] 2) = Inl IncompatibleKey
   \<and> subset_of (make_bs [0x0F] 1) (make_bs [0x3C] 2) = Inl IncompatibleKey
   \<and> at_key_fingerprint (make_at (make_td [0x0F] 1) (10::int))
       \<noteq> at_key_fingerprint (make_at (make_td [0x3C] 2) (20::int))
   \<and> at_plus (make_at (make_td [0x0F] 1) (10::int)) (make_at (make_td [0x3C] 2) 20)
       = Inl IncompatibleKey
   \<and> lsh_key_fingerprint \<lparr>bands = [3, 4], lsh_key_fingerprint = 1\<rparr>
       \<noteq> lsh_key_fingerprint \<lparr>bands = [3, 4], lsh_key_fingerprint = 2\<rparr>
   \<and> are_similar \<lparr>num_bands = 2, band_size = 5\<rparr> \<lparr>bands = [3, 4], lsh_key_fingerprint = 1\<rparr>
         \<lparr>bands = [3, 4], lsh_key_fingerprint = 2\<rparr> (1/2)
       = Inr (approximate False 0 1)"
  using incompatible_keys [of "make_bs [0x0F] 1" "make_bs [0x3C] 2" 1
      "make_at (make_td [0x0F] 1) (10::int)" "make_at (make_td [0x3C] 2) (20::int)"
      "\<lparr>bands = [3, 4], lsh_key_fingerprint = 1\<rparr>" "\<lparr>bands = [3, 4], lsh_key_fingerprint = 2\<rparr>"
      "\<lparr>num_bands = 2, band_size = 5\<rparr>" "1/2"]
  by (simp add: make_bs_def make_at_def make_td_def)

text \<open>
  C3, as stated, fails for LSH signatures: two signatures with the distinct non-zero
  key fingerprints 1 and 2 are compared without any failure.
\<close>

theorem are_similar_does_not_raise:
  "lsh_key_fingerprint \<lparr>bands = [3, 4], lsh_key_fingerprint = 1\<rparr> \<noteq> 0
   \<and> lsh_key_fingerprint \<lparr>bands = [3, 4], lsh_key_fingerprint = 2\<rparr> \<noteq> 0
   \<and> lsh_key_fingerprint \<lparr>bands = [3, 4], lsh_key_fingerprint = 1\<rparr>
       \<noteq> lsh_key_fingerprint \<lparr>bands = [3, 4], lsh_key_fingerprint = 2\<rparr>
   \<and> are_similar \<lparr>num_bands = 2, band_size = 5\<rparr> \<lparr>bands = [3, 4], lsh_key_fingerprint = 1\<rparr>
         \<lparr>bands = [3, 4], lsh_key_fingerprint = 2\<rparr> (1/2)
       \<noteq> Inl IncompatibleKey"
  by (simp add: are_similar_def)

subsection \<open>Additive trapdoors: scalar multiplication\<close>

lemma hv_xor_self: "hv_xor h h = hv_zero (length h)"
  by (simp add: hv_xor_def hv_zero_def list_eq_iff_nth_eq)

lemma hv_xor_zero_self: "hv_xor (hv_zero (length h)) h = h"
  by (simp add: hv_xor_zero_left)

lemma xor_repeat_parity:
  "xor_repeat h n h = (if even n then h else hv_zero (length h))"
  and "xor_repeat h n (hv_zero (length h)) = (if even n then hv_zero (length h) else h)"
  by (induction n) (simp_all add: hv_xor_self hv_xor_zero_self)

text \<open>
  C9. For every additive trapdoor \<open>t\<close> and every integer scalar \<open>s\<close> with \<open>|s| \<ge> 1\<close>, the
  product \<open>t * s\<close> has the payload of \<open>t\<close> multiplied by \<open>s\<close>, and its hash is the hash of \<open>t\<close>
  when \<open>|s|\<close> is odd and the all-zero hash word when \<open>|s|\<close> is even. The scalars are the
  \<open>int\<close> values on which \<open>std::abs\<close> is defined.
\<close>

theorem at_times_parity:
  fixes t :: "('a::ring_1) additive_trapdoor"
  assumes "- (2 ^ 31) < s" and "s < 2 ^ 31" and "1 \<le> \<bar>s\<bar>"
  shows "encrypted_value (at_times t s) = encrypted_value t * of_int s
         \<and> at_hash (at_times t s)
             = (if odd \<bar>s\<bar> then at_hash t else hv_zero (length (at_hash t)))"
proof -
  have "even (nat \<bar>s\<bar> - 1) \<longleftrightarrow> odd \<bar>s\<bar>"
    using assms by (cases "\<bar>s\<bar>") (simp_all add: even_nat_iff)
  then show ?thesis
    by (simp add: at_times_def make_at_def make_td_def Let_def xor_repeat_parity(1))
qed

theorem at_times_parity_witness:
  "- (2 ^ 31) < (- 4::int) \<and> (- 4::int) < 2 ^ 31 \<and> (1::int) \<le> \<bar>- 4\<bar>
   \<and> encrypted_value (at_times (make_at (make_td [0x12, 0x34] 7) (10::int)) (- 4)) = - 40
   \<and> at_hash (at_times (make_at (make_td [0x12, 0x34] 7) (10::int)) (- 4)) = [0, 0]
   \<and> - (2 ^ 31) < (3::int) \<and> (3::int) < 2 ^ 31 \<and> (1::int) \<le> \<bar>3\<bar>
   \<and> encrypted_value (at_times (make_at (make_td [0x12, 0x34] 7) (10::int)) 3) = 30
   \<and> at_hash (at_times (make_at (make_td [0x12, 0x34] 7) (10::int)) 3) = [0x12, 0x34]"
  using at_times_parity [of "- 4" "make_at (make_td [0x12, 0x34] 7) (10::int)"]
    at_times_parity [of 3 "make_at (make_td [0x12, 0x34] 7) (10::int)"]
  by (simp add: make_at_def make_td_def hv_zero_def numeral_2_eq_2)

subsection \<open>MinHash signatures of the empty collection\<close>

lemma count_matches_same: "count_matches xs xs = length xs"
  by (induction xs) (simp_all add: count_matches_def)

lemma generate_signature_Nil:
  "generate_signature N mh [] = new_signature (mh_num_hashes mh) (tf_key_fingerprint (mh_factory mh))"
  by (simp add: generate_signature_def)

text \<open>
  C10. The MinHash signature of an empty collection has all its coordinates equal to
  \<open>2\<^sup>3\<^sup>2 - 1\<close>, and \<open>estimate_similarity\<close> on two such signatures under one key returns
  the similarity 1 with error rate 0. The signatures have the same positive length
  \<open>K\<close>, and the estimating object a positive number of hash functions.
\<close>

theorem minhash_empty_collections:
  assumes "tf_key_fingerprint (mh_factory mh1) = tf_key_fingerprint (mh_factory mh2)"
    and "mh_num_hashes mh1 = mh_num_hashes mh2"
    and "0 < mh_num_hashes mh1"
    and "0 < mh_num_hashes mh"
  shows "sig_values (generate_signature N mh1 []) = replicate (mh_num_hashes mh1) (2 ^ 32 - 1)
         \<and> estimate_similarity mh (generate_signature N mh1 []) (generate_signature N mh2 [])
             = Inr (approximate 1 0 0)
         \<and> error_rate (approximate (1::real) 0 0) = 0"
  using assms
  by (simp add: generate_signature_Nil new_signature_def estimate_similarity_def
      count_matches_same approximate_def error_rate_def Let_def)

theorem minhash_empty_collections_witness:
  "tf_key_fingerprint (mh_factory
       \<lparr>mh_factory = \<lparr>tf_derive = (\<lambda>s. [0x2A, 0, 0, 0]), tf_key_fingerprint = 7\<rparr>,
        mh_num_hashes = 3, mh_std_hash = (\<lambda>n::nat. of_nat n)\<rparr>) = 7
   \<and> (0::nat) < 3
   \<and> sig_values (generate_signature 4
         \<lparr>mh_factory = \<lparr>tf_derive = (\<lambda>s. [0x2A, 0, 0, 0]), tf_key_fingerprint = 7\<rparr>,
          mh_num_hashes = 3, mh_std_hash = (\<lambda>n::nat. of_nat n)\<rparr> [])
       = [4294967295, 4294967295, 4294967295]
   \<and> estimate_similarity
         \<lparr>mh_factory = \<lparr>tf_derive = (\<lambda>s. [0x2A, 0, 0, 0]), tf_key_fingerprint = 7\<rparr>,
          mh_num_hashes = 3, mh_std_hash = (\<lambda>n::nat. of_nat n)\<rparr>
         (generate_signature 4
           \<lparr>mh_factory = \<lparr>tf_derive = (\<lambda>s. [0x2A, 0, 0, 0]), tf_key_fingerprint = 7\<rparr>,
            mh_num_hashes = 3, mh_std_hash = (\<lambda>n::nat. of_nat n)\<rparr> [])
         (generate_signature 4
           \<lparr>mh_factory = \<lparr>tf_derive = (\<lambda>s. [0x2A, 0, 0, 0]), tf_key_fingerprint = 7\<rparr>,
            mh_num_hashes = 3, mh_std_hash = (\<lambda>n::nat. of_nat n)\<rparr> [])
       = Inr (approximate 1 0 0)"
  using minhash_empty_collections
    [of "\<lparr>mh_factory = \<lparr>tf_derive = (\<lambda>s. [0x2A, 0, 0, 0]), tf_key_fingerprint = 7\<rparr>,
          mh_num_hashes = 3, mh_std_hash = (\<lambda>n::nat. of_nat n)\<rparr>"
        "\<lparr>mh_factory = \<lparr>tf_derive = (\<lambda>s. [0x2A, 0, 0, 0]), tf_key_fingerprint = 7\<rparr>,
          mh_num_hashes = 3, mh_std_hash = (\<lambda>n::nat. of_nat n)\<rparr>"
        "\<lparr>mh_factory = \<lparr>tf_derive = (\<lambda>s. [0x2A, 0, 0, 0]), tf_key_fingerprint = 7\<rparr>,
          mh_num_hashes = 3, mh_std_hash = (\<lambda>n::nat. of_nat n)\<rparr>" 4]
  by (simp add: numeral_3_eq_3)

subsection \<open>Threshold scheme: shares\<close>

lemma hv_xor_nth: "i < length a \<Longrightarrow> i < length b \<Longrightarrow> hv_xor a b ! i = a ! i XOR b ! i"
  by (simp add: hv_xor_def)

lemma hv_xor_cancel:
  assumes "length a = length r" and "length b = length r"
  shows "hv_xor (hv_xor a r) (hv_xor b r) = hv_xor a b"
  using assms by (simp add: list_eq_iff_nth_eq hv_xor_nth ac_simps)

lemma hv_xor_cancel_right:
  assumes "length a = length r"
  shows "hv_xor (hv_xor a r) r = a"
  using assms by (simp add: list_eq_iff_nth_eq hv_xor_nth ac_simps)

lemma length_fold_xor:
  assumes "\<forall>r\<in>set rs. length r = N" and "length a = N"
  shows "length (fold (\<lambda>share acc. hv_xor acc share) rs a) = N"
  using assms by (induction rs arbitrary: a) simp_all

lemma fold_xor_cancel:
  assumes "\<forall>r\<in>set rs. length r = N" and "length a = N" and "length b = N"
  shows "hv_xor (fold (\<lambda>share acc. hv_xor acc share) rs a)
                (fold (\<lambda>share acc. hv_xor acc share) rs b) = hv_xor a b"
  using assms
proof (induction rs arbitrary: a b)
  case Nil
  then show ?case by simp
next
  case (Cons r rs)
  then have "hv_xor (fold (\<lambda>share acc. hv_xor acc share) rs (hv_xor a r))
                    (fold (\<lambda>share acc. hv_xor acc share) rs (hv_xor b r))
             = hv_xor (hv_xor a r) (hv_xor b r)"
    by (intro Cons.IH) simp_all
  with Cons.prems show ?case by (simp add: hv_xor_cancel)
qed

lemma fold_xor_xor_all:
  assumes "\<forall>r\<in>set rs. length r = N" and "length a = N"
  shows "fold (\<lambda>share acc. hv_xor acc share) rs a = hv_xor a (xor_all N rs)"
proof -
  let ?X = "fold (\<lambda>share acc. hv_xor acc share) rs"
  have len: "length (?X a) = N" "length (?X (hv_zero N)) = N"
    using assms by (simp_all add: length_fold_xor)
  have "hv_xor (?X a) (?X (hv_zero N)) = a"
    using fold_xor_cancel [OF assms(1) assms(2), of "hv_zero N"] assms(2)
    by (simp add: hv_xor_zero_right)
  then have "hv_xor a (?X (hv_zero N)) = hv_xor (hv_xor (?X a) (?X (hv_zero N))) (?X (hv_zero N))"
    by simp
  also have "\<dots> = ?X a"
    using len by (simp add: hv_xor_cancel_right)
  finally show ?thesis by (simp add: xor_all_def)
qed

lemma length_random_share: "length (random_share N rand i) = N"
  by (simp add: random_share_def)

lemma reconstruct_canonical:
  assumes "\<forall>r\<in>set rs. length r = N" and "length h = N" and "unat k = Suc (length rs)"
  shows "reconstruct \<lparr>threshold = k, total = n\<rparr>
           (rs @ [fold (\<lambda>share acc. hv_xor acc share) rs h]) kf = Inr (make_td h kf)"
proof (cases rs)
  case Nil
  with assms show ?thesis by (simp add: reconstruct_def)
next
  case (Cons r rs')
  let ?X = "fold (\<lambda>share acc. hv_xor acc share) rs'"
  have lens: "\<forall>r\<in>set rs'. length r = N" "length r = N"
    using assms(1) Cons by simp_all
  have "hv_xor (?X r) (?X (hv_xor h r)) = hv_xor r (hv_xor h r)"
    using lens assms(2) by (intro fold_xor_cancel [where N = N]) simp_all
  also have "\<dots> = h"
    using lens assms(2) by (simp add: list_eq_iff_nth_eq hv_xor_nth ac_simps)
  finally have "hv_xor (?X r) (?X (hv_xor h r)) = h" .
  with assms(3) Cons show ?thesis by (simp add: reconstruct_def)
qed

text \<open>
  C6. For every trapdoor \<open>td\<close> and every threshold scheme with \<open>1 \<le> k \<le> n\<close>:
  \<open>create_shares\<close> returns \<open>n\<close> share words, the last of which is the hash of \<open>td\<close> XORed
  with the XOR of the first \<open>k - 1\<close> random shares; \<open>reconstruct\<close> on the first \<open>k - 1\<close>
  shares followed by the last share returns a trapdoor with the hash of \<open>td\<close>; and
  \<open>reconstruct\<close> on fewer than \<open>k\<close> shares fails with \<open>InsufficientShares\<close>.
\<close>

theorem threshold_shares:
  assumes "1 \<le> k" and "k \<le> n" and "length (value_hash td) = N"
  shows "new_threshold_scheme k n = Inr \<lparr>threshold = k, total = n\<rparr>
    \<and> length (create_shares N \<lparr>threshold = k, total = n\<rparr> rand td) = unat n
    \<and> last (create_shares N \<lparr>threshold = k, total = n\<rparr> rand td)
        = hv_xor (value_hash td)
            (xor_all N (take (unat k - 1) (create_shares N \<lparr>threshold = k, total = n\<rparr> rand td)))
    \<and> reconstruct \<lparr>threshold = k, total = n\<rparr>
         (take (unat k - 1) (create_shares N \<lparr>threshold = k, total = n\<rparr> rand td)
          @ [last (create_shares N \<lparr>threshold = k, total = n\<rparr> rand td)]) kf
        = Inr (make_td (value_hash td) kf)
    \<and> (\<forall>shares. length shares < unat k \<longrightarrow>
          reconstruct \<lparr>threshold = k, total = n\<rparr> shares kf = Inl InsufficientShares)"
proof -
  let ?s = "\<lparr>threshold = k, total = n\<rparr>"
  let ?random = "map (random_share N rand) [0..<unat (n - 1)]"
  let ?rs = "take (unat (k - 1)) ?random"
  let ?last = "fold (\<lambda>share acc. hv_xor acc share) ?rs (value_hash td)"
  have k0: "k \<noteq> 0" and n0: "n \<noteq> 0"
    using assms(1,2) by auto
  have uk: "unat (k - 1) = unat k - 1" and un: "unat (n - 1) = unat n - 1"
    using k0 n0 by (simp_all add: unat_minus_one)
  have kpos: "0 < unat k" and kn: "unat k \<le> unat n"
    using k0 assms(2) by (simp_all add: unat_gt_0 word_le_nat_alt)
  have shares: "create_shares N ?s rand td = ?random @ [?last]"
    by (simp add: create_shares_def Let_def)
  have take_eq: "take (unat k - 1) (create_shares N ?s rand td) = ?rs"
    using kn by (simp add: shares uk un)
  have len_rs: "\<forall>r\<in>set ?rs. length r = N"
    by (auto simp add: length_random_share dest!: in_set_takeD)
  have len_k: "unat k = Suc (length ?rs)"
    using kpos kn by (simp add: uk un)
  have c1: "new_threshold_scheme k n = Inr ?s"
    using assms(2) by (simp add: new_threshold_scheme_def)
  have c2: "length (create_shares N ?s rand td) = unat n"
    using n0 by (simp add: shares un unat_gt_0)
  have c3: "last (create_shares N ?s rand td)
      = hv_xor (value_hash td) (xor_all N (take (unat k - 1) (create_shares N ?s rand td)))"
    unfolding take_eq using fold_xor_xor_all [OF len_rs assms(3)] by (simp add: shares)
  have c4: "reconstruct ?s (take (unat k - 1) (create_shares N ?s rand td)
          @ [last (create_shares N ?s rand td)]) kf = Inr (make_td (value_hash td) kf)"
    unfolding take_eq using reconstruct_canonical [OF len_rs assms(3) len_k, of n kf]
    by (simp add: shares)
  have c5: "\<forall>shares. length shares < unat k \<longrightarrow>
          reconstruct ?s shares kf = Inl InsufficientShares"
    by (simp add: reconstruct_def)
  from c1 c2 c3 c4 c5 show ?thesis by blast
qed

theorem threshold_shares_witness:
  "(1::size_t) \<le> 2 \<and> (2::size_t) \<le> 3 \<and> length (value_hash (make_td [0x12, 0x34] 7)) = 2
   \<and> create_shares 2 \<lparr>threshold = 2, total = 3\<rparr> (\<lambda>i. int i + 1) (make_td [0x12, 0x34] 7)
       = [[1, 2], [3, 4], [0x13, 0x36]]
   \<and> reconstruct \<lparr>threshold = 2, total = 3\<rparr> [[1, 2], [0x13, 0x36]] 7
       = Inr (make_td [0x12, 0x34] 7)
   \<and> reconstruct \<lparr>threshold = 2, total = 3\<rparr> [[1, 2]] 7 = Inl InsufficientShares"
proof -
  have shares: "create_shares 2 \<lparr>threshold = 2, total = 3\<rparr> (\<lambda>i. int i + 1) (make_td [0x12, 0x34] 7)
      = [[1, 2], [3, 4], [0x13, 0x36]]"
    by (simp add: create_shares_def random_share_def make_td_def hv_xor_def upt_rec Let_def)
  have hyps: "(1::size_t) \<le> 2" "(2::size_t) \<le> 3" "length (value_hash (make_td [0x12, 0x34] 7)) = 2"
    by (simp_all add: make_td_def)
  note inst = threshold_shares [OF hyps, of "\<lambda>i. int i + 1" 7, unfolded shares]
  from inst have "reconstruct \<lparr>threshold = 2, total = 3\<rparr>
      (take (unat (2 :: size_t) - 1) [[1, 2], [3, 4], [0x13, 0x36]]
       @ [last [[1, 2], [3, 4], [0x13, 0x36]]]) 7
      = Inr (make_td (value_hash (make_td [0x12, 0x34] 7)) 7)"
    by blast
  then have canonical: "reconstruct \<lparr>threshold = 2, total = 3\<rparr> [[1, 2], [0x13, 0x36]] 7
      = Inr (make_td [0x12, 0x34] 7)"
    by (simp add: make_td_def)
  from inst have "length [[1, 2 :: byte]] < unat (2 :: size_t) \<longrightarrow>
      reconstruct \<lparr>threshold = 2, total = 3\<rparr> [[1, 2]] 7 = Inl InsufficientShares"
    by blast
  then have short: "reconstruct \<lparr>threshold = 2, total = 3\<rparr> [[1, 2]] 7 = Inl InsufficientShares"
    by simp
  from hyps shares canonical short show ?thesis
    by blast
qed

subsection \<open>Boolean sets: membership\<close>

lemma length_set_bits: "length (set_bits N i tdh result) = N"
  by (simp add: set_bits_def)

lemma length_fold_set_bits:
  "length r = N \<Longrightarrow> length (fold (\<lambda>i result. set_bits N i (g i) result) ns r) = N"
  by (induction ns arbitrary: r) (simp_all add: length_set_bits)

lemma length_singleton_hash: "length (singleton_hash N f v) = N"
  unfolding singleton_hash_def Let_def
  by (rule length_fold_set_bits) simp

lemma hv_and_or_self:
  assumes "length h = length m"
  shows "hv_and (hv_or h m) m = m"
  using assms by (simp add: hv_and_def hv_or_def list_eq_iff_nth_eq word_ao_absorbs)

lemma hv_and_or_mono:
  assumes "length h = length m" and "length x = length m" and "hv_and h m = m"
  shows "hv_and (hv_or h x) m = m"
proof -
  have "(h ! i OR x ! i) AND m ! i = m ! i" if "i < length m" for i
  proof -
    from assms(1,3) that have "h ! i AND m ! i = m ! i"
      by (simp add: hv_and_def list_eq_iff_nth_eq)
    then have "(h ! i OR x ! i) AND m ! i = m ! i OR (x ! i AND m ! i)"
      by (simp add: bit.conj_disj_distrib2)
    then show ?thesis
      by (simp add: word_ao_absorbs ac_simps)
  qed
  with assms(1,2) show ?thesis
    by (simp add: hv_and_def hv_or_def list_eq_iff_nth_eq)
qed

lemma from_collection_loop_covers:
  assumes "bs_key_fingerprint r = tf_key_fingerprint (bsf_trapdoor_factory f)"
    and "length (bs_hash r) = N" and "length m = N"
    and "hv_and (bs_hash r) m = m \<or> (\<exists>v\<in>set vs. m = singleton_hash N f v)"
  shows "\<exists>s. from_collection_loop N f vs r = Inr s
             \<and> bs_key_fingerprint s = tf_key_fingerprint (bsf_trapdoor_factory f)
             \<and> hv_and (bs_hash s) m = m"
  using assms
proof (induction vs arbitrary: r)
  case Nil
  then show ?case by simp
next
  case (Cons v vs)
  let ?r = "make_bs (hv_or (bs_hash r) (singleton_hash N f v)) (bs_key_fingerprint r)"
  have step: "bs_or r (singleton N f v) = Inr ?r"
    using Cons.prems(1)
    by (simp add: bs_or_def bs_verify_compatible_def singleton_def make_bs_def)
  have kf: "bs_key_fingerprint ?r = tf_key_fingerprint (bsf_trapdoor_factory f)"
    using Cons.prems(1) by (simp add: make_bs_def)
  have len: "length (bs_hash ?r) = N"
    using Cons.prems(2) by (simp add: make_bs_def length_singleton_hash)
  have cover: "hv_and (bs_hash ?r) m = m \<or> (\<exists>v\<in>set vs. m = singleton_hash N f v)"
  proof -
    consider "hv_and (bs_hash r) m = m" | "m = singleton_hash N f v"
      | "\<exists>v\<in>set vs. m = singleton_hash N f v"
      using Cons.prems(4) by auto
    then show ?thesis
    proof cases
      case 1
      with Cons.prems(2,3) show ?thesis
        by (simp add: make_bs_def hv_and_or_mono length_singleton_hash)
    next
      case 2
      with Cons.prems(2) show ?thesis
        by (simp add: make_bs_def hv_and_or_self length_singleton_hash)
    next
      case 3
      then show ?thesis by simp
    qed
  qed
  from Cons.IH [OF kf len Cons.prems(3) cover] step show ?case
    by simp
qed

lemma from_collection_covers:
  assumes "v \<in> set vs"
  shows "\<exists>s. from_collection N f vs = Inr s
             \<and> bs_key_fingerprint s = tf_key_fingerprint (bsf_trapdoor_factory f)
             \<and> hv_and (bs_hash s) (singleton_hash N f v) = singleton_hash N f v"
  unfolding from_collection_def
  using assms
  by (intro from_collection_loop_covers)
     (auto simp add: bsf_empty_def make_bs_def length_singleton_hash)

text \<open>
  C1, as the code has it. For every boolean set \<open>a\<close> and trapdoor \<open>t\<close> with matching key
  fingerprint, \<open>contains(t)\<close> takes the hash of \<open>t\<close> itself as the mask and returns the
  approximate boolean with value \<open>(a.hash & t.hash) == t.hash\<close>, false-positive rate 0.5
  and false-negative rate 0; a set built from a collection reports \<open>contains = true\<close>
  for a trapdoor that carries the singleton hash of a member.
\<close>

theorem contains_contract:
  "(key_fingerprint t = bs_key_fingerprint a \<longrightarrow>
      contains a t
        = Inr (approximate (hv_and (bs_hash a) (value_hash t) = value_hash t) (1/2) 0))
   \<and> (v \<in> set vs \<longrightarrow>
      (\<exists>s. from_collection N f vs = Inr s
           \<and> contains s (make_td (singleton_hash N f v)
                                  (tf_key_fingerprint (bsf_trapdoor_factory f)))
               = Inr (approximate True (1/2) 0)))"
proof (intro conjI impI)
  assume "key_fingerprint t = bs_key_fingerprint a"
  then show "contains a t
      = Inr (approximate (hv_and (bs_hash a) (value_hash t) = value_hash t) (1/2) 0)"
    by (simp add: contains_def Let_def)
next
  assume "v \<in> set vs"
  from from_collection_covers [OF this, of N f]
  obtain s where "from_collection N f vs = Inr s"
    and "bs_key_fingerprint s = tf_key_fingerprint (bsf_trapdoor_factory f)"
    and "hv_and (bs_hash s) (singleton_hash N f v) = singleton_hash N f v"
    by blast
  then show "\<exists>s. from_collection N f vs = Inr s
      \<and> contains s (make_td (singleton_hash N f v)
                             (tf_key_fingerprint (bsf_trapdoor_factory f)))
          = Inr (approximate True (1/2) 0)"
    by (simp add: contains_def make_td_def Let_def)
qed

lemma singleton_hash_example:
  "singleton_hash 1
     \<lparr>bsf_trapdoor_factory = \<lparr>tf_derive = (\<lambda>s. [0x01]), tf_key_fingerprint = 7\<rparr>,
      bsf_num_hashes = 3, bsf_std_hash = (\<lambda>n::nat. of_nat n)\<rparr> 5 = [0x07]"
  by (simp add: singleton_hash_def set_bits_def create_def make_td_def hv_zero_def
      upt_rec Let_def)

lemma from_collection_example:
  "from_collection 1
     \<lparr>bsf_trapdoor_factory = \<lparr>tf_derive = (\<lambda>s. [0x01]), tf_key_fingerprint = 7\<rparr>,
      bsf_num_hashes = 3, bsf_std_hash = (\<lambda>n::nat. of_nat n)\<rparr> [5] = Inr (make_bs [0x07] 7)"
  by (simp add: from_collection_def bsf_empty_def bs_or_def bs_verify_compatible_def
      singleton_def singleton_hash_example [simplified] make_bs_def hv_or_def hv_zero_def)

theorem contains_contract_witness:
  "key_fingerprint (make_td [0x05] 7) = bs_key_fingerprint (make_bs [0x07] 7)
   \<and> contains (make_bs [0x07] 7) (make_td [0x05] 7) = Inr (approximate True (1/2) 0)
   \<and> (5::nat) \<in> set [5]
   \<and> contains (make_bs [0x07] 7) (make_td [0x07] 7) = Inr (approximate True (1/2) 0)"
  using contains_contract [of "make_td [0x05] 7" "make_bs [0x07] 7" "5::nat" "[5]" 1
      "\<lparr>bsf_trapdoor_factory = \<lparr>tf_derive = (\<lambda>s. [0x01]), tf_key_fingerprint = 7\<rparr>,
        bsf_num_hashes = 3, bsf_std_hash = (\<lambda>n::nat. of_nat n)\<rparr>"]
  by (simp add: from_collection_example [simplified] singleton_hash_example [simplified])
     (simp add: make_td_def make_bs_def hv_and_def)

text \<open>
  C1, as stated, fails. With hash width 1, three sub-hashes, a derivation that gives
  \<open>0x01\<close> on every salted string and \<open>0x08\<close> on the value 5, the set built from the
  collection \<open>[5]\<close> has the hash \<open>0x07\<close> and the trapdoor of 5 has the hash \<open>0x08\<close>: the
  code answers \<open>false\<close> for this member, while the mask computed from \<open>0x08\<close> by the
  per-byte rule is \<open>0x00\<close> and the stated formula answers \<open>true\<close>.
\<close>

theorem contains_member_counterexample:
  "from_collection 1
     \<lparr>bsf_trapdoor_factory = \<lparr>tf_derive = (\<lambda>s. [0x01]), tf_key_fingerprint = 7\<rparr>,
      bsf_num_hashes = 3, bsf_std_hash = (\<lambda>n::nat. of_nat n)\<rparr> [5] = Inr (make_bs [0x07] 7)
   \<and> create \<lparr>tf_derive = (\<lambda>n::nat. [0x08]), tf_key_fingerprint = 7\<rparr> 5 = make_td [0x08] 7
   \<and> contains (make_bs [0x07] 7) (make_td [0x08] 7) = Inr (approximate False (1/2) 0)
   \<and> spec_contains_value 1 3 (make_bs [0x07] 7) (make_td [0x08] 7)"
  using from_collection_example
  by (simp add: create_def contains_def spec_contains_value_def spec_singleton_mask_def
       set_bits_def make_td_def make_bs_def hv_and_def hv_zero_def upt_rec Let_def)

end
